theory Spec2Isabelle
  imports
    Complex_Main
    "HOL-Library.AList"
    "HOL-Library.Multiset"
    "HOL-Library.Sublist"
    "HOL-Library.Product_Lexorder"
begin

section \<open>The KPI comparison pipeline of compare\_service.py\<close>

text \<open>
  The development embeds \<^verbatim>\<open>run_comparison_pipeline\<close> of \<^verbatim>\<open>compare_service.py\<close>.
  What the function obtains from its libraries is an input of the model:
  \<^item> the archive is either one that \<^verbatim>\<open>ZipFile\<close> rejects (with the text of the exception) or the
    list of the files found under the temporary directory after \<^verbatim>\<open>extractall\<close>, in the order in
    which \<^verbatim>\<open>rglob\<close> enumerates them;
  \<^item> every file is either a workbook that \<^verbatim>\<open>read_excel\<close> turns into a header and rows, or is
    unreadable (with the text of the exception);
  \<^item> a cell is a number, empty (pandas' NaN) or text. Numbers are exact reals: rounding of
    binary floating point is not modelled;
  \<^item> strings are lists of 8-bit characters, on which \<^verbatim>\<open>[A-Za-z]\<close> and \<^verbatim>\<open>\d\<close> are the ASCII
    letters and digits;
  \<^item> paths follow POSIX: \<^verbatim>\<open>*.xlsx\<close> is matched case-sensitively.
\<close>

subsection \<open>Cells, frames and files\<close>

datatype cell = Num real | NaN | Text string

type_synonym row = "string \<rightharpoonup> cell"

record frame =
  columns :: "string list"
  rows :: "row list"

text \<open>A cell of a row; a column the row does not have reads as NaN, as after \<^verbatim>\<open>pd.concat\<close>.\<close>

definition cell_at :: "row \<Rightarrow> string \<Rightarrow> cell" where
  "cell_at r c = (case r c of Some v \<Rightarrow> v | None \<Rightarrow> NaN)"

datatype content = Workbook "string list" "row list" | Unreadable string

record extracted_file =
  file_parent :: string
  file_name :: string
  file_content :: content

datatype archive = Corrupt string | Extracted "extracted_file list"

text \<open>
  The exceptions the pipeline can meet, each with what \<^verbatim>\<open>str(e)\<close> returns. \<^verbatim>\<open>KeyError\<close>
  prints its key in quotes. For \<^verbatim>\<open>TypeError\<close> the text is the fixed part of Python's message;
  the operand type names that follow it are left out.
\<close>

datatype exn = BadZipFile string | ReadError string | KeyError string | TypeError string

fun str_exn :: "exn \<Rightarrow> string" where
  "str_exn (BadZipFile m) = m"
| "str_exn (ReadError m) = m"
| "str_exn (KeyError k) = [CHR 0x27] @ k @ [CHR 0x27]"
| "str_exn (TypeError m) = m"

definition KPI_COLS :: "string list" where
  "KPI_COLS = [''Reported Value to Regulator'', ''Reported Value to Group'',
               ''Actual Value MAPS Networks'']"

subsection \<open>Strings: \<^verbatim>\<open>str(int)\<close>, \<^verbatim>\<open>Path.stem\<close>, the regular expression\<close>

definition digit_char :: "nat \<Rightarrow> char" where
  "digit_char d = ''0123456789'' ! d"

fun str_nat :: "nat \<Rightarrow> string" where
  "str_nat n = (if n < 10 then [digit_char n] else str_nat (n div 10) @ [digit_char (n mod 10)])"

declare str_nat.simps [simp del]

definition str_int :: "int \<Rightarrow> string" where
  "str_int i = (if i < 0 then CHR ''-'' # str_nat (nat (- i)) else str_nat (nat i))"

definition endswith :: "string \<Rightarrow> string \<Rightarrow> bool" where
  "endswith s suf = (length suf \<le> length s \<and> drop (length s - length suf) s = suf)"

text \<open>\<^verbatim>\<open>str.rfind\<close> for a single character; Python's \<^verbatim>\<open>-1\<close> is \<open>None\<close>.\<close>

definition rfind :: "string \<Rightarrow> char \<Rightarrow> nat option" where
  "rfind s c =
     (if c \<in> set s then Some (length s - 1 - length (takeWhile (\<lambda>x. x \<noteq> c) (rev s)))
      else None)"

text \<open>\<^verbatim>\<open>PurePath.stem\<close>: the name up to its last dot, unless that dot is first or last.\<close>

definition stem :: "string \<Rightarrow> string" where
  "stem nm =
     (case rfind nm (CHR ''.'') of
        None \<Rightarrow> nm
      | Some i \<Rightarrow> if 0 < i \<and> i < length nm - 1 then take i nm else nm)"

definition is_alpha :: "char \<Rightarrow> bool" where
  "is_alpha c = (c \<in> set ''ABCDEFGHIJKLMNOPQRSTUVWXYZabcdefghijklmnopqrstuvwxyz'')"

definition is_digit :: "char \<Rightarrow> bool" where
  "is_digit c = (c \<in> set ''0123456789'')"

text \<open>
  \<^verbatim>\<open>re.match(r"[A-Za-z]{3}\d{4}", name)\<close>: the pattern is anchored at the start of the name
  only; what follows the seventh character is not examined.
\<close>

definition re_match :: "string \<Rightarrow> bool" where
  "re_match nm =
     (7 \<le> length nm \<and> list_all is_alpha (take 3 nm) \<and> list_all is_digit (take 4 (drop 3 nm)))"

subsection \<open>Finding the files of the year (lines 28 to 40)\<close>

definition excel_files :: "extracted_file list \<Rightarrow> extracted_file list" where
  "excel_files files = filter (\<lambda>f. endswith (file_name f) ''.xlsx'') files"

text \<open>
  One round of the loop over \<^verbatim>\<open>excel_files\<close>. The dictionary \<^verbatim>\<open>year_files\<close> is an association
  list: assigning to a key that is present replaces its value in place, a new key goes last,
  as in a Python \<^verbatim>\<open>dict\<close>. The value stored is the file that the path names.
\<close>

definition year_files_step ::
  "int \<Rightarrow> extracted_file \<Rightarrow> (string \<times> extracted_file) list \<Rightarrow> (string \<times> extracted_file) list"
where
  "year_files_step selected_year file year_files =
     (let nm = stem (file_name file) in
      if re_match nm then
        (let month_str = take 3 nm; year_str = drop 3 nm in
         if year_str = str_int selected_year
         then AList.update month_str file year_files
         else year_files)
      else year_files)"

definition find_year_files :: "int \<Rightarrow> extracted_file list \<Rightarrow> (string \<times> extracted_file) list" where
  "find_year_files selected_year files =
     fold (year_files_step selected_year) (excel_files files) []"

subsection \<open>Loading and merging (lines 42 to 59)\<close>

text \<open>\<^verbatim>\<open>pd.read_excel\<close>: the rows carry exactly the cells of the header's columns.\<close>

definition read_excel :: "extracted_file \<Rightarrow> exn + frame" where
  "read_excel f =
     (case file_content f of
        Unreadable m \<Rightarrow> Inl (ReadError m)
      | Workbook cols rws \<Rightarrow>
          Inr \<lparr>columns = cols, rows = map (\<lambda>r. r |` set cols) rws\<rparr>)"

text \<open>\<^verbatim>\<open>df[c] = v\<close> for a scalar \<open>v\<close>.\<close>

definition set_column :: "string \<Rightarrow> cell \<Rightarrow> frame \<Rightarrow> frame" where
  "set_column c v df =
     \<lparr>columns = (if c \<in> set (columns df) then columns df else columns df @ [c]),
      rows = map (\<lambda>r. r(c \<mapsto> v)) (rows df)\<rparr>"

fun load_months :: "(string \<times> extracted_file) list \<Rightarrow> exn + frame list" where
  "load_months [] = Inr []"
| "load_months ((month_str, filepath) # rest) =
     (case read_excel filepath of
        Inl e \<Rightarrow> Inl e
      | Inr df_month \<Rightarrow>
          (case load_months rest of
             Inl e \<Rightarrow> Inl e
           | Inr df_list \<Rightarrow> Inr (set_column ''Month'' (Text month_str) df_month # df_list)))"

text \<open>\<^verbatim>\<open>pd.concat(df_list, ignore_index=True)\<close>: the union of the columns, all rows in order.\<close>

definition concat_frames :: "frame list \<Rightarrow> frame" where
  "concat_frames df_list =
     \<lparr>columns = rev (remdups (rev (concat (map columns df_list)))),
      rows = concat (map rows df_list)\<rparr>"

definition ensure_country :: "frame \<Rightarrow> frame" where
  "ensure_country df =
     (if ''Country'' \<notin> set (columns df) then set_column ''Country'' (Text ''Unknown'') df else df)"

definition filter_country :: "string \<Rightarrow> frame \<Rightarrow> frame" where
  "filter_country country df =
     (if country \<noteq> ''All Countries''
      then df\<lparr>rows := filter (\<lambda>r. cell_at r ''Country'' = Text country) (rows df)\<rparr>
      else df)"

subsection \<open>Differences and agreement (lines 61 to 65 and 109)\<close>

text \<open>\<^verbatim>\<open>df[c]\<close>: a column that the frame does not have raises \<^verbatim>\<open>KeyError\<close>.\<close>

definition get_column :: "frame \<Rightarrow> string \<Rightarrow> exn + cell list" where
  "get_column df c =
     (if c \<in> set (columns df) then Inr (map (\<lambda>r. cell_at r c) (rows df)) else Inl (KeyError c))"

text \<open>
  Subtraction of two cells: with text on either side Python raises \<^verbatim>\<open>TypeError\<close>; with an
  empty cell on either side the difference is NaN, here \<open>None\<close>.
\<close>

fun cell_sub :: "cell \<Rightarrow> cell \<Rightarrow> exn + real option" where
  "cell_sub (Num a) (Num b) = Inr (Some (a - b))"
| "cell_sub (Text s) y = Inl (TypeError ''unsupported operand type(s) for -'')"
| "cell_sub x (Text t) = Inl (TypeError ''unsupported operand type(s) for -'')"
| "cell_sub x y = Inr None"

fun series_sub :: "cell list \<Rightarrow> cell list \<Rightarrow> exn + real option list" where
  "series_sub (x # xs) (y # ys) =
     (case cell_sub x y of
        Inl e \<Rightarrow> Inl e
      | Inr d \<Rightarrow> (case series_sub xs ys of Inl e \<Rightarrow> Inl e | Inr ds \<Rightarrow> Inr (d # ds)))"
| "series_sub xs ys = Inr []"

text \<open>\<^verbatim>\<open>(df[a] - df[b]).abs()\<close>\<close>

definition abs_diff :: "frame \<Rightarrow> string \<Rightarrow> string \<Rightarrow> exn + real option list" where
  "abs_diff df a b =
     (case get_column df a of
        Inl e \<Rightarrow> Inl e
      | Inr xs \<Rightarrow>
          (case get_column df b of
             Inl e \<Rightarrow> Inl e
           | Inr ys \<Rightarrow>
               (case series_sub xs ys of
                  Inl e \<Rightarrow> Inl e
                | Inr ds \<Rightarrow> Inr (map (map_option abs) ds))))"

text \<open>\<^verbatim>\<open>nunique\<close> along a row: the number of distinct values, NaN not counted.\<close>

definition nunique :: "cell list \<Rightarrow> nat" where
  "nunique cs = length (remdups (filter (\<lambda>c. c \<noteq> NaN) cs))"

fun dropna :: "'a option list \<Rightarrow> 'a list" where
  "dropna [] = []"
| "dropna (None # xs) = dropna xs"
| "dropna (Some x # xs) = x # dropna xs"

text \<open>\<^verbatim>\<open>max(axis=1)\<close> and \<^verbatim>\<open>mean()\<close> skip NaN and are NaN when nothing is left.\<close>

definition max_skipna :: "real option list \<Rightarrow> real option" where
  "max_skipna ds = (case dropna ds of [] \<Rightarrow> None | x # xs \<Rightarrow> Some (fold max xs x))"

definition mean_skipna :: "real option list \<Rightarrow> real option" where
  "mean_skipna ds =
     (let xs = dropna ds in if xs = [] then None else Some (sum_list xs / real (length xs)))"

text \<open>
  A row of the frame after line 109, restricted to the columns the pipeline reads or writes:
  \<^verbatim>\<open>Country\<close>, \<^verbatim>\<open>Month\<close>, the three KPI columns, \<^verbatim>\<open>Diff_Reg_vs_Grp\<close>, \<^verbatim>\<open>Diff_Reg_vs_Act\<close>,
  \<^verbatim>\<open>Diff_Grp_vs_Act\<close>, \<^verbatim>\<open>All_Match\<close> and \<^verbatim>\<open>Max_Diff\<close>.
\<close>

record drec =
  country :: cell
  month :: cell
  reported_regulator :: cell
  reported_group :: cell
  actual_measured :: cell
  diff_reg_grp :: "real option"
  diff_reg_act :: "real option"
  diff_grp_act :: "real option"
  all_match :: bool
  max_diff :: "real option"

definition mk_drec :: "row \<Rightarrow> real option \<times> real option \<times> real option \<Rightarrow> drec" where
  "mk_drec r ds =
     (case ds of (d01, d02, d12) \<Rightarrow>
        \<lparr>country = cell_at r ''Country'',
         month = cell_at r ''Month'',
         reported_regulator = cell_at r (KPI_COLS ! 0),
         reported_group = cell_at r (KPI_COLS ! 1),
         actual_measured = cell_at r (KPI_COLS ! 2),
         diff_reg_grp = d01,
         diff_reg_act = d02,
         diff_grp_act = d12,
         all_match = (nunique (map (cell_at r) KPI_COLS) = 1),
         max_diff = max_skipna [d01, d02, d12]\<rparr>)"

text \<open>
  Lines 62 to 65, column by column and in the source's order, so that the first exception
  raised is the one the source raises. A column is treated cell by cell, over the rows that
  the country filter has kept; what pandas derives from the type of a whole column is not
  modelled.
\<close>

definition discrepancies :: "frame \<Rightarrow> exn + drec list" where
  "discrepancies df =
     (case abs_diff df (KPI_COLS ! 0) (KPI_COLS ! 1) of
        Inl e \<Rightarrow> Inl e
      | Inr d01 \<Rightarrow>
          (case abs_diff df (KPI_COLS ! 0) (KPI_COLS ! 2) of
             Inl e \<Rightarrow> Inl e
           | Inr d02 \<Rightarrow>
               (case abs_diff df (KPI_COLS ! 1) (KPI_COLS ! 2) of
                  Inl e \<Rightarrow> Inl e
                | Inr d12 \<Rightarrow> Inr (map2 mk_drec (rows df) (zip d01 (zip d02 d12))))))"

subsection \<open>Summary (lines 67 to 79)\<close>

text \<open>
  The summary is a formatted text in the source. The model keeps the values that the text is
  formatted from; rendering them (\<^verbatim>\<open>.1%\<close>, \<^verbatim>\<open>.2f\<close>) is not modelled. The two rates are the
  quotients \<^verbatim>\<open>all_match/total\<close> and \<^verbatim>\<open>mismatch/total\<close> of the source; the summary is built
  only after the check that the frame is not empty.
\<close>

record summary =
  summary_year :: int
  summary_country :: string
  total :: int
  all_match_count :: int
  mismatch_count :: int
  all_match_rate :: real
  mismatch_rate :: real
  avg_diff_reg_grp :: "real option"
  avg_diff_reg_act :: "real option"
  avg_diff_grp_act :: "real option"

definition count_all_match :: "drec list \<Rightarrow> int" where
  "count_all_match df = int (length (filter all_match df))"

definition build_summary :: "int \<Rightarrow> string \<Rightarrow> drec list \<Rightarrow> summary" where
  "build_summary selected_year cntry df =
     (let tot = int (length df);
          am = count_all_match df;
          mismatch = tot - am
      in \<lparr>summary_year = selected_year,
          summary_country = cntry,
          total = tot,
          all_match_count = am,
          mismatch_count = mismatch,
          all_match_rate = real_of_int am / real_of_int tot,
          mismatch_rate = real_of_int mismatch / real_of_int tot,
          avg_diff_reg_grp = mean_skipna (map diff_reg_grp df),
          avg_diff_reg_act = mean_skipna (map diff_reg_act df),
          avg_diff_grp_act = mean_skipna (map diff_grp_act df)\<rparr>)"

subsection \<open>Chart data (lines 81 to 141)\<close>

text \<open>
  A chart is modelled by the data handed to the plotting library; building the figure and
  serialising it are taken to succeed on that data.
\<close>

datatype chart =
    Pie "string list" "int list"
  | Bar "(string \<times> real option) list"
  | Table "string list" "cell list list"
  | Heatmap "(cell \<times> real option list) list"
  | Line "(cell \<times> cell \<times> real) list"

text \<open>
  \<^verbatim>\<open>df.nlargest(n, "Max_Diff")\<close> with its default \<^verbatim>\<open>keep='first'\<close>, as pandas documents it: the
  first \<open>n\<close> rows in descending order of the column, rows with equal values in their original
  order, rows whose value is NaN after all others. The sort key orders NaN last and numbers
  by their negation; \<^const>\<open>sort_key\<close> is a stable insertion sort.
\<close>

definition desc_key :: "real option \<Rightarrow> bool \<times> real" where
  "desc_key d = (case d of None \<Rightarrow> (True, 0) | Some v \<Rightarrow> (False, - v))"

definition nlargest :: "nat \<Rightarrow> drec list \<Rightarrow> drec list" where
  "nlargest n df = take n (sort_key (\<lambda>r. desc_key (max_diff r)) df)"

definition cell_of :: "real option \<Rightarrow> cell" where
  "cell_of d = (case d of None \<Rightarrow> NaN | Some v \<Rightarrow> Num v)"

text \<open>
  The frame \<^verbatim>\<open>top_mismatches\<close> of lines 110 to 112: each row is projected to \<^verbatim>\<open>Country\<close>,
  \<^verbatim>\<open>Month\<close>, the three KPI columns and \<^verbatim>\<open>Max_Diff\<close>.
\<close>

record table_row =
  tr_country :: cell
  tr_month :: cell
  tr_reported_regulator :: cell
  tr_reported_group :: cell
  tr_actual_measured :: cell
  tr_max_diff :: "real option"

definition to_table_row :: "drec \<Rightarrow> table_row" where
  "to_table_row r =
     \<lparr>tr_country = country r, tr_month = month r,
      tr_reported_regulator = reported_regulator r, tr_reported_group = reported_group r,
      tr_actual_measured = actual_measured r, tr_max_diff = max_diff r\<rparr>"

definition top_mismatches :: "drec list \<Rightarrow> table_row list" where
  "top_mismatches df = map to_table_row (nlargest 10 df)"

definition table_header :: "string list" where
  "table_header = [''Country'', ''Month''] @ KPI_COLS @ [''Max_Diff'']"

text \<open>The cells of the table, one list per column of \<^verbatim>\<open>top_mismatches\<close>.\<close>

definition table_cells :: "table_row list \<Rightarrow> cell list list" where
  "table_cells tm =
     [map tr_country tm, map tr_month tm, map tr_reported_regulator tm,
      map tr_reported_group tm, map tr_actual_measured tm, map (cell_of \<circ> tr_max_diff) tm]"

text \<open>
  \<^verbatim>\<open>groupby\<close> drops the rows whose key is NaN and orders the groups by key: numbers by value,
  text by code point, numbers before text.
\<close>

fun str_le :: "string \<Rightarrow> string \<Rightarrow> bool" where
  "str_le [] t = True"
| "str_le (a # s) [] = False"
| "str_le (a # s) (b # t) =
     ((of_char a :: nat) < of_char b \<or> (a = b \<and> str_le s t))"

fun cell_le :: "cell \<Rightarrow> cell \<Rightarrow> bool" where
  "cell_le (Num a) (Num b) = (a \<le> b)"
| "cell_le (Num a) (Text t) = True"
| "cell_le (Text s) (Num b) = False"
| "cell_le (Text s) (Text t) = str_le s t"
| "cell_le NaN y = True"
| "cell_le x NaN = False"

fun insert_by :: "('a \<Rightarrow> 'a \<Rightarrow> bool) \<Rightarrow> 'a \<Rightarrow> 'a list \<Rightarrow> 'a list" where
  "insert_by le x [] = [x]"
| "insert_by le x (y # ys) = (if le x y then x # y # ys else y # insert_by le x ys)"

definition sort_by :: "('a \<Rightarrow> 'a \<Rightarrow> bool) \<Rightarrow> 'a list \<Rightarrow> 'a list" where
  "sort_by le xs = foldr (insert_by le) xs []"

definition pair_le :: "cell \<times> cell \<Rightarrow> cell \<times> cell \<Rightarrow> bool" where
  "pair_le p q = (if fst p = fst q then cell_le (snd p) (snd q) else cell_le (fst p) (fst q))"

definition heatmap_data :: "drec list \<Rightarrow> (cell \<times> real option list) list" where
  "heatmap_data df =
     map (\<lambda>k. let g = filter (\<lambda>r. country r = k) df
              in (k, [mean_skipna (map diff_reg_grp g), mean_skipna (map diff_reg_act g),
                      mean_skipna (map diff_grp_act g)]))
       (sort_by cell_le (remdups (filter (\<lambda>c. c \<noteq> NaN) (map country df))))"

definition trend_data :: "drec list \<Rightarrow> (cell \<times> cell \<times> real) list" where
  "trend_data df =
     map (\<lambda>(m, c). let g = filter (\<lambda>r. month r = m \<and> country r = c) df
                   in (m, c, real_of_int (count_all_match g) / real (length g)))
       (sort_by pair_le
          (remdups (filter (\<lambda>(m, c). m \<noteq> NaN \<and> c \<noteq> NaN) (map (\<lambda>r. (month r, country r)) df))))"

definition build_plots :: "drec list \<Rightarrow> (string \<times> chart) list" where
  "build_plots df =
     (let tot = int (length df);
          am = count_all_match df;
          mismatch = tot - am
      in [(''agreement_pie'', Pie [''All Match'', ''Mismatch''] [am, mismatch]),
          (''pairwise_diff_bar'',
             Bar [(''Reg vs Group'', mean_skipna (map diff_reg_grp df)),
                  (''Reg vs Actual'', mean_skipna (map diff_reg_act df)),
                  (''Group vs Actual'', mean_skipna (map diff_grp_act df))]),
          (''top_mismatches_table'', Table table_header (table_cells (top_mismatches df))),
          (''deviation_heatmap'', Heatmap (heatmap_data df)),
          (''monthly_trend'', Line (trend_data df))])"

subsection \<open>The pipeline\<close>

type_synonym result = "(string \<times> chart) list option \<times> summary option \<times> string option"

text \<open>The body of the \<^verbatim>\<open>try\<close> block: \<open>Inl\<close> is an exception, \<open>Inr\<close> a \<^verbatim>\<open>return\<close>.\<close>

definition pipeline_body :: "archive \<Rightarrow> int \<Rightarrow> string \<Rightarrow> exn + result" where
  "pipeline_body zip_bytes selected_year cntry =
     (case zip_bytes of
        Corrupt m \<Rightarrow> Inl (BadZipFile m)
      | Extracted files \<Rightarrow>
          (let year_files = find_year_files selected_year files in
           if year_files = []
           then Inr (None, None,
                     Some (''No files found for year '' @ str_int selected_year @ ''.''))
           else
             (case load_months year_files of
                Inl e \<Rightarrow> Inl e
              | Inr df_list \<Rightarrow>
                  (let df = filter_country cntry (ensure_country (concat_frames df_list)) in
                   if rows df = []
                   then Inr (None, None,
                             Some (''No data found for '' @ cntry @ '' in ''
                                   @ str_int selected_year @ ''.''))
                   else
                     (case discrepancies df of
                        Inl e \<Rightarrow> Inl e
                      | Inr recs \<Rightarrow>
                          Inr (Some (build_plots recs),
                               Some (build_summary selected_year cntry recs),
                               None))))))"

text \<open>The \<^verbatim>\<open>except Exception\<close> clause turns every exception into the third return shape.\<close>

definition run_comparison_pipeline :: "archive \<Rightarrow> int \<Rightarrow> string \<Rightarrow> result" where
  "run_comparison_pipeline zip_bytes selected_year cntry =
     (case pipeline_body zip_bytes selected_year cntry of
        Inl e \<Rightarrow> (None, None, Some (''Processing error: '' @ str_exn e))
      | Inr r \<Rightarrow> r)"

section \<open>Reference predicates and example inputs\<close>

text \<open>
  The naming convention in the specification's words: exactly three letters followed by
  exactly four digits, the digits being the decimal representation of the year. It is
  compared below with the test that the loop performs.
\<close>

definition spec_name_matches :: "int \<Rightarrow> string \<Rightarrow> bool" where
  "spec_name_matches selected_year nm =
     (length nm = 7 \<and> list_all is_alpha (take 3 nm) \<and> list_all is_digit (drop 3 nm)
      \<and> drop 3 nm = str_int selected_year)"

text \<open>
  The two tests of the loop over \<^verbatim>\<open>excel_files\<close> taken together, and the key under which the
  loop stores a file.
\<close>

definition month_label :: "extracted_file \<Rightarrow> string" where
  "month_label file = take 3 (stem (file_name file))"

definition qualifies :: "int \<Rightarrow> extracted_file \<Rightarrow> bool" where
  "qualifies selected_year file =
     (re_match (stem (file_name file)) \<and> drop 3 (stem (file_name file)) = str_int selected_year)"


text \<open>A row with the three KPI cells, and a file with a given name, header and rows.\<close>

definition kpi_row :: "cell \<Rightarrow> cell \<Rightarrow> cell \<Rightarrow> row" where
  "kpi_row a b c =
     [''Reported Value to Regulator'' \<mapsto> a, ''Reported Value to Group'' \<mapsto> b,
      ''Actual Value MAPS Networks'' \<mapsto> c]"

definition member_file :: "string \<Rightarrow> content \<Rightarrow> extracted_file" where
  "member_file nm c = \<lparr>file_parent = ''reports'', file_name = nm, file_content = c\<rparr>"



section \<open>Differences and agreement of a record\<close>

lemma series_sub_length:
  "series_sub xs ys = Inr ds \<Longrightarrow> length ds = min (length xs) (length ys)"
proof (induction xs ys arbitrary: ds rule: series_sub.induct)
  case (1 x xs y ys)
  then show ?case by (auto split: sum.splits)
qed auto


lemma abs_diff_length:
  "abs_diff df a b = Inr ds \<Longrightarrow> length ds = length (rows df)"
  by (auto simp: abs_diff_def get_column_def dest!: series_sub_length split: sum.splits if_splits)



lemma discrepancies_length:
  "discrepancies df = Inr recs \<Longrightarrow> length recs = length (rows df)"
  by (auto simp: discrepancies_def split: sum.splits dest!: abs_diff_length)




text \<open>The definitions that evaluate the pipeline on a concrete input.\<close>

lemmas locate_defs = find_year_files_def excel_files_def
  year_files_step_def endswith_def stem_def rfind_def re_match_def is_alpha_def is_digit_def
  str_int_def str_nat.simps digit_char_def member_file_def Let_def

lemmas load_defs = read_excel_def set_column_def concat_frames_def
  ensure_country_def filter_country_def cell_at_def kpi_row_def KPI_COLS_def

lemmas compute_defs = discrepancies_def abs_diff_def get_column_def
  mk_drec_def nunique_def max_skipna_def



section \<open>The summary\<close>

lemma count_all_match_bounds: "0 \<le> count_all_match df \<and> count_all_match df \<le> int (length df)"
  by (simp add: count_all_match_def)

lemma pipeline_success:
  assumes "run_comparison_pipeline zip_bytes selected_year cntry = (p, Some s, e)"
  shows "\<exists>recs. recs \<noteq> [] \<and> p = Some (build_plots recs)
           \<and> s = build_summary selected_year cntry recs \<and> e = None"
proof -
  from assms obtain df recs where
    d: "discrepancies df = Inr recs" "rows df \<noteq> []"
    and r: "p = Some (build_plots recs)" "s = build_summary selected_year cntry recs" "e = None"
    by (auto simp: run_comparison_pipeline_def pipeline_body_def Let_def
          split: sum.splits archive.splits if_splits)
  from discrepancies_length[OF d(1)] d(2) have "recs \<noteq> []" by auto
  with r show ?thesis by blast
qed

text \<open>
  Claim C2. Whenever the pipeline returns a summary (the filtered dataset is then not
  empty), \<open>all_match_count + mismatch_count = total\<close>, \<open>total\<close> is positive, both rates lie
  between 0 and 1, and the two rates add up to 1.
\<close>

theorem summary_counts_and_rates:
  assumes "run_comparison_pipeline zip_bytes selected_year cntry = (p, Some s, e)"
  shows "0 < total s
       \<and> all_match_count s + mismatch_count s = total s
       \<and> 0 \<le> all_match_rate s \<and> all_match_rate s \<le> 1
       \<and> 0 \<le> mismatch_rate s \<and> mismatch_rate s \<le> 1
       \<and> all_match_rate s + mismatch_rate s = 1"
proof -
  from pipeline_success[OF assms] obtain recs where
    ne: "recs \<noteq> []" and s: "s = build_summary selected_year cntry recs"
    by blast
  let ?n = "int (length recs)" and ?a = "count_all_match recs"
  have n: "0 < ?n" using ne by simp
  have a: "0 \<le> ?a" "?a \<le> ?n" using count_all_match_bounds[of recs] by simp_all
  have t: "total s = ?n" "all_match_count s = ?a" "mismatch_count s = ?n - ?a"
    "all_match_rate s = real_of_int ?a / real_of_int ?n"
    "mismatch_rate s = real_of_int (?n - ?a) / real_of_int ?n"
    by (simp_all add: s build_summary_def Let_def)
  have r1: "0 \<le> real_of_int ?a / real_of_int ?n" using a n by simp
  have r2: "real_of_int ?a / real_of_int ?n \<le> 1" using a n by simp
  have r3: "0 \<le> real_of_int (?n - ?a) / real_of_int ?n" using a n by simp
  have r4: "real_of_int (?n - ?a) / real_of_int ?n \<le> 1" using a n by simp
  have r5: "real_of_int ?a / real_of_int ?n + real_of_int (?n - ?a) / real_of_int ?n = 1"
    using n by (simp add: add_divide_distrib[symmetric])
  show ?thesis unfolding t using n r1 r2 r3 r4 r5 by simp
qed

text \<open>An instance: one agreeing and one disagreeing record.\<close>

theorem summary_counts_and_rates_witness:
  "(case fst (snd (run_comparison_pipeline
       (Extracted [member_file ''Jan2023.xlsx'' (Workbook KPI_COLS [kpi_row (Num 7) (Num 7) (Num 7)]),
                   member_file ''Feb2023.xlsx'' (Workbook KPI_COLS [kpi_row (Num 100) (Num 90) (Num 100)])])
       2023 ''All Countries'')) of
      None \<Rightarrow> False
    | Some s \<Rightarrow> total s = 2 \<and> all_match_count s = 1 \<and> mismatch_count s = 1
               \<and> all_match_count s + mismatch_count s = total s
               \<and> all_match_rate s = 1 / 2 \<and> all_match_rate s + mismatch_rate s = 1)"
proof -
  let ?z = "Extracted [member_file ''Jan2023.xlsx'' (Workbook KPI_COLS [kpi_row (Num 7) (Num 7) (Num 7)]),
                   member_file ''Feb2023.xlsx'' (Workbook KPI_COLS [kpi_row (Num 100) (Num 90) (Num 100)])]"
  let ?s = "\<lparr>summary_year = 2023, summary_country = ''All Countries'', total = 2,
           all_match_count = 1, mismatch_count = 1, all_match_rate = 1 / 2, mismatch_rate = 1 / 2,
           avg_diff_reg_grp = Some 5, avg_diff_reg_act = Some 0, avg_diff_grp_act = Some (5::real)\<rparr>"
  have y: "find_year_files 2023 [member_file ''Jan2023.xlsx'' (Workbook KPI_COLS [kpi_row (Num 7) (Num 7) (Num 7)]),
                   member_file ''Feb2023.xlsx'' (Workbook KPI_COLS [kpi_row (Num 100) (Num 90) (Num 100)])]
      = [(''Jan'', member_file ''Jan2023.xlsx'' (Workbook KPI_COLS [kpi_row (Num 7) (Num 7) (Num 7)])),
         (''Feb'', member_file ''Feb2023.xlsx'' (Workbook KPI_COLS [kpi_row (Num 100) (Num 90) (Num 100)]))]"
    by (simp add: locate_defs)
  have b: "fst (snd (run_comparison_pipeline ?z 2023 ''All Countries'')) = Some ?s"
    unfolding run_comparison_pipeline_def pipeline_body_def archive.case y
    by (simp add: load_defs compute_defs build_summary_def count_all_match_def mean_skipna_def
          member_file_def Let_def)
  then have h: "run_comparison_pipeline ?z 2023 ''All Countries''
      = (fst (run_comparison_pipeline ?z 2023 ''All Countries''), Some ?s,
         snd (snd (run_comparison_pipeline ?z 2023 ''All Countries'')))"
    by (metis prod.collapse)
  from summary_counts_and_rates[OF h] b show ?thesis by simp
qed

section \<open>The shape of the result\<close>

text \<open>
  Claim C6. Every invocation returns one of two shapes: a chart bundle with the five keys and
  a summary and no error, or no chart bundle, no summary and one error message.
\<close>

theorem result_shape:
  "(\<exists>p s. run_comparison_pipeline zip_bytes selected_year cntry = (Some p, Some s, None)
          \<and> map fst p = [''agreement_pie'', ''pairwise_diff_bar'', ''top_mismatches_table'',
                          ''deviation_heatmap'', ''monthly_trend''])
   \<or> (\<exists>msg. run_comparison_pipeline zip_bytes selected_year cntry = (None, None, Some msg))"
  by (auto simp: run_comparison_pipeline_def pipeline_body_def build_plots_def Let_def
        split: sum.splits archive.splits)

section \<open>Selecting the files of the year\<close>

lemma year_files_step_eq:
  "year_files_step y f acc = (if qualifies y f then AList.update (month_label f) f acc else acc)"
  by (simp add: year_files_step_def qualifies_def month_label_def Let_def)

lemma update_entry:
  "(k', v') \<in> set (AList.update k v al) \<Longrightarrow> (k', v') = (k, v) \<or> (k', v') \<in> set al"
  by (induction al) (auto split: if_splits)

lemma step_keys:
  "fst ` set (year_files_step y f acc)
     = (if qualifies y f then insert (month_label f) (fst ` set acc) else fst ` set acc)"
  by (simp add: year_files_step_eq dom_update)

lemma fold_step_keys:
  "fst ` set (fold (year_files_step y) fs acc)
     = fst ` set acc \<union> month_label ` {f \<in> set fs. qualifies y f}"
proof (induction fs arbitrary: acc)
  case Nil
  then show ?case by simp
next
  case (Cons f fs)
  have "fst ` set (fold (year_files_step y) (f # fs) acc)
      = fst ` set (year_files_step y f acc) \<union> month_label ` {g \<in> set fs. qualifies y g}"
    by (simp add: Cons.IH)
  also have "\<dots> = fst ` set acc \<union> month_label ` {g \<in> set (f # fs). qualifies y g}"
    unfolding step_keys by auto
  finally show ?case .
qed

lemma fold_step_entries:
  "(k, f) \<in> set (fold (year_files_step y) fs acc) \<Longrightarrow>
     (k, f) \<in> set acc \<or> (f \<in> set fs \<and> qualifies y f \<and> k = month_label f)"
proof (induction fs arbitrary: acc)
  case Nil
  then show ?case by simp
next
  case (Cons g fs)
  from Cons.IH[OF Cons.prems[simplified]]
  have "(k, f) \<in> set (year_files_step y g acc) \<or> (f \<in> set fs \<and> qualifies y f \<and> k = month_label f)" .
  then show ?case
    by (auto simp: year_files_step_eq dest: update_entry split: if_splits)
qed

lemma fold_step_distinct:
  "distinct (map fst acc) \<Longrightarrow> distinct (map fst (fold (year_files_step y) fs acc))"
  by (induction fs arbitrary: acc) (simp_all add: year_files_step_eq distinct_update)

lemma find_year_files_keys:
  "fst ` set (find_year_files y files)
     = month_label ` {f \<in> set files. endswith (file_name f) ''.xlsx'' \<and> qualifies y f}"
  by (auto simp: find_year_files_def fold_step_keys excel_files_def)

lemma find_year_files_entries:
  assumes "(k, f) \<in> set (find_year_files y files)"
  shows "f \<in> set files \<and> endswith (file_name f) ''.xlsx'' \<and> qualifies y f \<and> k = month_label f"
  using fold_step_entries[of k f y "excel_files files" "[]"] assms
  by (auto simp: find_year_files_def excel_files_def)

lemma find_year_files_distinct: "distinct (map fst (find_year_files y files))"
  by (simp add: find_year_files_def fold_step_distinct)

lemma find_year_files_empty:
  "find_year_files y files = [] \<longleftrightarrow>
     \<not> (\<exists>f \<in> set files. endswith (file_name f) ''.xlsx'' \<and> qualifies y f)"
proof -
  have "find_year_files y files = [] \<longleftrightarrow> fst ` set (find_year_files y files) = {}"
    by simp
  also have "\<dots> \<longleftrightarrow> \<not> (\<exists>f \<in> set files. endswith (file_name f) ''.xlsx'' \<and> qualifies y f)"
    unfolding find_year_files_keys by auto
  finally show ?thesis .
qed

lemma no_year_files_result:
  "find_year_files y files = [] \<Longrightarrow>
     run_comparison_pipeline (Extracted files) y c
       = (None, None, Some (''No files found for year '' @ str_int y @ ''.''))"
  by (simp add: run_comparison_pipeline_def pipeline_body_def)









text \<open>
  Claim C9. Only files whose name ends in \<^verbatim>\<open>.xlsx\<close> are selected: every entry of the
  month-to-path mapping is such a file, and when the archive holds no such file the mapping is
  empty and the pipeline returns the message that no files were found for the year.
\<close>

theorem only_xlsx_files_selected:
  "(\<forall>k f. (k, f) \<in> set (find_year_files selected_year files) \<longrightarrow> endswith (file_name f) ''.xlsx'')
   \<and> ((\<forall>f \<in> set files. \<not> endswith (file_name f) ''.xlsx'') \<longrightarrow>
         find_year_files selected_year files = []
         \<and> run_comparison_pipeline (Extracted files) selected_year cntry
             = (None, None, Some (''No files found for year '' @ str_int selected_year @ ''.'')))"
proof -
  have 1: "\<forall>k f. (k, f) \<in> set (find_year_files selected_year files) \<longrightarrow> endswith (file_name f) ''.xlsx''"
    using find_year_files_entries[of _ _ selected_year files] by blast
  have 2: "(\<forall>f \<in> set files. \<not> endswith (file_name f) ''.xlsx'') \<longrightarrow>
         find_year_files selected_year files = []"
    unfolding find_year_files_empty by blast
  from 1 2 no_year_files_result[of selected_year files cntry] show ?thesis by blast
qed

text \<open>An instance: an archive that holds \<^verbatim>\<open>Jan2023.csv\<close> only.\<close>

theorem only_xlsx_files_selected_witness:
  "spec_name_matches 2023 (stem ''Jan2023.csv'')
   \<and> \<not> endswith ''Jan2023.csv'' ''.xlsx''
   \<and> find_year_files 2023 [member_file ''Jan2023.csv'' (Unreadable ''not a workbook'')] = []
   \<and> run_comparison_pipeline
        (Extracted [member_file ''Jan2023.csv'' (Unreadable ''not a workbook'')]) 2023
        ''All Countries''
      = (None, None, Some ''No files found for year 2023.'')"
proof -
  let ?f = "member_file ''Jan2023.csv'' (Unreadable ''not a workbook'')"
  have m: "spec_name_matches 2023 (stem ''Jan2023.csv'')"
    by (simp add: spec_name_matches_def locate_defs)
  have x: "\<not> endswith ''Jan2023.csv'' ''.xlsx''"
    by (simp add: locate_defs)
  then have a: "\<forall>f \<in> set [?f]. \<not> endswith (file_name f) ''.xlsx''"
    by (simp add: member_file_def)
  have s: "str_int 2023 = ''2023''"
    by (simp add: locate_defs)
  from only_xlsx_files_selected[of 2023 "[?f]" "''All Countries''"] a
  have "find_year_files 2023 [?f] = []
      \<and> run_comparison_pipeline (Extracted [?f]) 2023 ''All Countries''
          = (None, None, Some (''No files found for year '' @ str_int 2023 @ ''.''))"
    by blast
  with m x show ?thesis unfolding s by simp
qed

section \<open>Month labels\<close>

lemma load_months_Inr:
  "load_months yf = Inr dfs \<Longrightarrow>
     list_all2 (\<lambda>(k, f) df. \<exists>df0. read_excel f = Inr df0 \<and> df = set_column ''Month'' (Text k) df0)
       yf dfs"
proof (induction yf arbitrary: dfs rule: load_months.induct)
  case 1
  then show ?case by simp
next
  case (2 month_str filepath rest)
  then show ?case by (auto split: sum.splits)
qed

lemma set_column_cell:
  "r \<in> set (rows (set_column c v df)) \<Longrightarrow> cell_at r c = v"
  by (auto simp: set_column_def cell_at_def)

lemma load_months_tags:
  assumes "load_months yf = Inr dfs"
  shows "length dfs = length yf
       \<and> (\<forall>i<length yf. \<forall>r\<in>set (rows (dfs ! i)). cell_at r ''Month'' = Text (fst (yf ! i)))"
proof -
  note l = load_months_Inr[OF assms]
  then have n: "length dfs = length yf" by (simp add: list_all2_lengthD)
  have "cell_at r ''Month'' = Text (fst (yf ! i))" if "i < length yf" "r \<in> set (rows (dfs ! i))" for i r
  proof -
    from list_all2_nthD[OF l that(1)] obtain df0 where
      "dfs ! i = set_column ''Month'' (Text (fst (yf ! i))) df0"
      by (auto simp: case_prod_beta)
    with that(2) show ?thesis by (simp add: set_column_cell)
  qed
  with n show ?thesis by blast
qed

text \<open>
  Claim C10. The month label of a file is the first three characters of its base name, as
  they are. Two selected files whose labels differ, be it only in the case of the letters,
  have two distinct keys in the month-to-path mapping and two distinct entries; the keys of
  the mapping are pairwise distinct; and every row loaded for an entry carries the key of
  that entry in its \<^verbatim>\<open>Month\<close> column.
\<close>

theorem month_labels_keep_case:
  assumes "f1 \<in> set files" and "f2 \<in> set files"
    and "endswith (file_name f1) ''.xlsx''" and "endswith (file_name f2) ''.xlsx''"
    and "qualifies selected_year f1" and "qualifies selected_year f2"
    and "take 3 (stem (file_name f1)) \<noteq> take 3 (stem (file_name f2))"
  shows "(\<forall>k f. (k, f) \<in> set (find_year_files selected_year files) \<longrightarrow> k = take 3 (stem (file_name f)))
       \<and> distinct (map fst (find_year_files selected_year files))
       \<and> (\<exists>g1 g2. (take 3 (stem (file_name f1)), g1) \<in> set (find_year_files selected_year files)
                 \<and> (take 3 (stem (file_name f2)), g2) \<in> set (find_year_files selected_year files)
                 \<and> g1 \<noteq> g2)
       \<and> (\<forall>dfs. load_months (find_year_files selected_year files) = Inr dfs \<longrightarrow>
             length dfs = length (find_year_files selected_year files)
             \<and> (\<forall>i<length dfs. \<forall>r\<in>set (rows (dfs ! i)).
                   cell_at r ''Month'' = Text (fst (find_year_files selected_year files ! i))))"
proof -
  let ?yf = "find_year_files selected_year files"
  have 1: "\<forall>k f. (k, f) \<in> set ?yf \<longrightarrow> k = take 3 (stem (file_name f))"
    using find_year_files_entries[of _ _ selected_year files] by (auto simp: month_label_def)
  have "month_label f1 \<in> fst ` set ?yf" "month_label f2 \<in> fst ` set ?yf"
    unfolding find_year_files_keys using assms by auto
  then obtain g1 g2 where g: "(month_label f1, g1) \<in> set ?yf" "(month_label f2, g2) \<in> set ?yf"
    by auto
  have "g1 \<noteq> g2"
  proof
    assume "g1 = g2"
    with g 1 have "month_label f1 = take 3 (stem (file_name g2))"
      "month_label f2 = take 3 (stem (file_name g2))"
      by blast+
    with assms(7) show False by (simp add: month_label_def)
  qed
  with g have 3: "\<exists>g1 g2. (take 3 (stem (file_name f1)), g1) \<in> set ?yf
                 \<and> (take 3 (stem (file_name f2)), g2) \<in> set ?yf \<and> g1 \<noteq> g2"
    unfolding month_label_def by blast
  have 4: "\<forall>dfs. load_months ?yf = Inr dfs \<longrightarrow>
             length dfs = length ?yf
             \<and> (\<forall>i<length dfs. \<forall>r\<in>set (rows (dfs ! i)). cell_at r ''Month'' = Text (fst (?yf ! i)))"
    using load_months_tags[of ?yf] by auto
  from 1 find_year_files_distinct[of selected_year files] 3 4 show ?thesis by blast
qed

text \<open>
  An instance: \<^verbatim>\<open>JAN2023.xlsx\<close> and \<^verbatim>\<open>jan2023.xlsx\<close> are stored under the keys \<^verbatim>\<open>JAN\<close> and
  \<^verbatim>\<open>jan\<close>, both are loaded, and their rows are tagged \<^verbatim>\<open>JAN\<close> and \<^verbatim>\<open>jan\<close>.
\<close>

theorem month_labels_keep_case_witness:
  "find_year_files 2023
      [member_file ''JAN2023.xlsx'' (Workbook KPI_COLS [kpi_row (Num 1) (Num 1) (Num 1)]),
       member_file ''jan2023.xlsx'' (Workbook KPI_COLS [kpi_row (Num 2) (Num 2) (Num 2)])]
     = [(''JAN'', member_file ''JAN2023.xlsx'' (Workbook KPI_COLS [kpi_row (Num 1) (Num 1) (Num 1)])),
        (''jan'', member_file ''jan2023.xlsx'' (Workbook KPI_COLS [kpi_row (Num 2) (Num 2) (Num 2)]))]
   \<and> distinct (map fst (find_year_files 2023
      [member_file ''JAN2023.xlsx'' (Workbook KPI_COLS [kpi_row (Num 1) (Num 1) (Num 1)]),
       member_file ''jan2023.xlsx'' (Workbook KPI_COLS [kpi_row (Num 2) (Num 2) (Num 2)])]))
   \<and> (case load_months (find_year_files 2023
      [member_file ''JAN2023.xlsx'' (Workbook KPI_COLS [kpi_row (Num 1) (Num 1) (Num 1)]),
       member_file ''jan2023.xlsx'' (Workbook KPI_COLS [kpi_row (Num 2) (Num 2) (Num 2)])]) of
        Inl e \<Rightarrow> False
      | Inr df_list \<Rightarrow>
          map (\<lambda>r. (cell_at r ''Month'', cell_at r ''Reported Value to Regulator''))
            (rows (concat_frames df_list))
          = [(Text ''JAN'', Num 1), (Text ''jan'', Num 2)])"
proof -
  let ?f1 = "member_file ''JAN2023.xlsx'' (Workbook KPI_COLS [kpi_row (Num 1) (Num 1) (Num 1)])"
  let ?f2 = "member_file ''jan2023.xlsx'' (Workbook KPI_COLS [kpi_row (Num 2) (Num 2) (Num 2)])"
  have y: "find_year_files 2023 [?f1, ?f2] = [(''JAN'', ?f1), (''jan'', ?f2)]"
    by (simp add: locate_defs)
  have m: "?f1 \<in> set [?f1, ?f2]" "?f2 \<in> set [?f1, ?f2]" by simp_all
  have x: "endswith (file_name ?f1) ''.xlsx''" "endswith (file_name ?f2) ''.xlsx''"
    by (simp_all add: locate_defs)
  have q: "qualifies 2023 ?f1" "qualifies 2023 ?f2"
    by (simp_all add: qualifies_def locate_defs)
  have n: "take 3 (stem (file_name ?f1)) \<noteq> take 3 (stem (file_name ?f2))"
    by (simp add: locate_defs)
  from month_labels_keep_case[OF m x q n]
  have d: "distinct (map fst (find_year_files 2023 [?f1, ?f2]))" by blast
  have l: "(case load_months [(''JAN'', ?f1), (''jan'', ?f2)] of
        Inl e \<Rightarrow> False
      | Inr df_list \<Rightarrow>
          map (\<lambda>r. (cell_at r ''Month'', cell_at r ''Reported Value to Regulator''))
            (rows (concat_frames df_list))
          = [(Text ''JAN'', Num 1), (Text ''jan'', Num 2)])"
    by (simp add: load_defs member_file_def)
  from d l show ?thesis unfolding y by simp
qed

section \<open>The country column\<close>

lemma set_column_columns:
  "set (columns (set_column c v df)) = insert c (set (columns df))"
  by (auto simp: set_column_def)

lemma read_excel_columns:
  "read_excel f = Inr df \<Longrightarrow> \<exists>rws. file_content f = Workbook (columns df) rws"
  by (auto simp: read_excel_def split: content.splits)

lemma concat_frames_columns:
  "set (columns (concat_frames dfs)) = (\<Union>df \<in> set dfs. set (columns df))"
  by (simp add: concat_frames_def)

lemma loaded_country_column:
  assumes "load_months yf = Inr dfs"
    and "\<forall>(k, f) \<in> set yf. \<forall>cols rws. file_content f = Workbook cols rws \<longrightarrow> ''Country'' \<notin> set cols"
  shows "''Country'' \<notin> set (columns (concat_frames dfs))"
proof
  assume "''Country'' \<in> set (columns (concat_frames dfs))"
  then obtain df where df: "df \<in> set dfs" "''Country'' \<in> set (columns df)"
    unfolding concat_frames_columns by blast
  then obtain i where i: "i < length dfs" "dfs ! i = df"
    by (auto simp: in_set_conv_nth)
  note l = load_months_Inr[OF assms(1)]
  then have n: "length yf = length dfs" by (simp add: list_all2_lengthD)
  with i have iy: "i < length yf" by simp
  from list_all2_nthD[OF l iy] i obtain df0 where
    r: "read_excel (snd (yf ! i)) = Inr df0" and s: "df = set_column ''Month'' (Text (fst (yf ! i))) df0"
    by (auto simp: case_prod_beta)
  from df(2) s have c: "''Country'' \<in> set (columns df0)"
    by (simp add: set_column_columns)
  from read_excel_columns[OF r] obtain rws where
    w: "file_content (snd (yf ! i)) = Workbook (columns df0) rws" by blast
  from iy have "(fst (yf ! i), snd (yf ! i)) \<in> set yf" by simp
  with assms(2) w have "''Country'' \<notin> set (columns df0)" by blast
  with c show False by contradiction
qed

text \<open>
  Claim C7, amended. If none of the loaded files has a \<^verbatim>\<open>Country\<close> column, every record of
  the assembled dataset has the country \<^verbatim>\<open>Unknown\<close>.
\<close>

theorem country_defaults_to_unknown:
  assumes "load_months year_files = Inr df_list"
    and "\<forall>(month_str, file) \<in> set year_files. \<forall>cols rws.
           file_content file = Workbook cols rws \<longrightarrow> ''Country'' \<notin> set cols"
  shows "\<forall>r \<in> set (rows (ensure_country (concat_frames df_list))).
           cell_at r ''Country'' = Text ''Unknown''"
  using loaded_country_column[OF assms]
  by (auto simp: ensure_country_def dest: set_column_cell)

text \<open>An instance: one workbook with the three KPI columns only.\<close>

theorem country_defaults_to_unknown_witness:
  "(case load_months (find_year_files 2023
        [member_file ''Jan2023.xlsx'' (Workbook KPI_COLS [kpi_row (Num 1) (Num 1) (Num 1)])]) of
      Inl e \<Rightarrow> False
    | Inr df_list \<Rightarrow>
        map (\<lambda>r. cell_at r ''Country'') (rows (ensure_country (concat_frames df_list)))
        = [Text ''Unknown''])
   \<and> ''Country'' \<notin> set KPI_COLS"
proof -
  let ?f = "member_file ''Jan2023.xlsx'' (Workbook KPI_COLS [kpi_row (Num 1) (Num 1) (Num 1)])"
  let ?df = "set_column ''Month'' (Text ''Jan'')
      \<lparr>columns = KPI_COLS, rows = [kpi_row (Num 1) (Num 1) (Num 1) |` set KPI_COLS]\<rparr>"
  have y: "find_year_files 2023 [?f] = [(''Jan'', ?f)]"
    by (simp add: locate_defs)
  have l: "load_months [(''Jan'', ?f)] = Inr [?df]"
    by (simp add: read_excel_def member_file_def)
  have c: "''Country'' \<notin> set KPI_COLS" by (simp add: KPI_COLS_def)
  then have a: "\<forall>(month_str, file) \<in> set [(''Jan'', ?f)]. \<forall>cols rws.
           file_content file = Workbook cols rws \<longrightarrow> ''Country'' \<notin> set cols"
    by (simp add: member_file_def)
  have r: "rows (ensure_country (concat_frames [?df])) \<noteq> []"
    by (simp add: load_defs)
  have n: "length (rows (ensure_country (concat_frames [?df]))) = 1"
    by (simp add: load_defs)
  from country_defaults_to_unknown[OF l a]
  have "map (\<lambda>r. cell_at r ''Country'') (rows (ensure_country (concat_frames [?df])))
      = map (\<lambda>r. Text ''Unknown'') (rows (ensure_country (concat_frames [?df])))"
    by (intro map_cong) auto
  also have "\<dots> = replicate (length (rows (ensure_country (concat_frames [?df])))) (Text ''Unknown'')"
    by (simp add: map_replicate_const)
  also have "\<dots> = [Text ''Unknown'']" unfolding n by simp
  finally show ?thesis using c unfolding y l by simp
qed

text \<open>
  Claim C7 as stated fails: the test for the column is made once, on the merged frame. When
  one workbook has a \<^verbatim>\<open>Country\<close> column and another has none, the rows of the latter have
  an empty country, not \<^verbatim>\<open>Unknown\<close>.
\<close>

theorem country_missing_in_one_file:
  "(case load_months (find_year_files 2023
        [member_file ''Jan2023.xlsx''
           (Workbook (''Country'' # KPI_COLS)
              [(kpi_row (Num 1) (Num 1) (Num 1))(''Country'' \<mapsto> Text ''Kenya'')]),
         member_file ''Feb2023.xlsx'' (Workbook KPI_COLS [kpi_row (Num 2) (Num 2) (Num 2)])]) of
      Inl e \<Rightarrow> False
    | Inr df_list \<Rightarrow>
        map (\<lambda>r. (cell_at r ''Month'', cell_at r ''Country''))
          (rows (ensure_country (concat_frames df_list)))
        = [(Text ''Jan'', Text ''Kenya''), (Text ''Feb'', NaN)])"
  by (simp add: locate_defs load_defs)

section \<open>Exceptions during the computation\<close>












section \<open>A rejected archive\<close>

text \<open>
  Claim C8, amended. When the archive is rejected or cannot be extracted, the pipeline
  returns no chart bundle, no summary and the message \<^verbatim>\<open>Processing error:\<close> followed by the text
  of the exception: the same kind of result as for any other exception.
\<close>

theorem corrupt_archive_is_processing_error:
  "run_comparison_pipeline (Corrupt msg) selected_year cntry
     = (None, None, Some (''Processing error: '' @ msg))"
  by (simp add: run_comparison_pipeline_def pipeline_body_def)

text \<open>
  Claim C8 as stated fails: there is no separate kind of error for a rejected archive. A
  rejected archive and a readable archive whose workbook is rejected with the same text give
  the same result.
\<close>

theorem corrupt_archive_like_corrupt_workbook:
  "run_comparison_pipeline (Corrupt ''File is not a zip file'') 2023 ''All Countries''
     = (None, None, Some ''Processing error: File is not a zip file'')
   \<and> run_comparison_pipeline
       (Extracted [member_file ''Jan2023.xlsx'' (Unreadable ''File is not a zip file'')])
       2023 ''All Countries''
     = (None, None, Some ''Processing error: File is not a zip file'')"
proof -
  let ?f = "member_file ''Jan2023.xlsx'' (Unreadable ''File is not a zip file'')"
  have y: "find_year_files 2023 [?f] = [(''Jan'', ?f)]"
    by (simp add: locate_defs)
  show ?thesis
    unfolding run_comparison_pipeline_def pipeline_body_def archive.case y
    by (simp add: read_excel_def member_file_def)
qed

section \<open>The table of the largest mismatches\<close>













end
